theory Spec2Isabelle
  imports Main
begin

section \<open>Lightpath widgets: \<^verbatim>\<open>lightpath/ui/widgets.py\<close>\<close>

text \<open>
  A shallow embedding of the widget layer. Python objects are records, the module
  logger is a list of log records threaded through every function, and an exception is a
  value: a function that returns a value yields \<open>exn + 'a\<close>, a method that only mutates
  yields \<open>exn option\<close> (\<open>None\<close>: returned normally) next to the state it left behind.
\<close>

subsection \<open>Exceptions and logging\<close>

text \<open>
  The exceptions the source can meet. \<open>KeyboardInterrupt\<close> and \<open>SystemExit\<close> derive
  from \<open>BaseException\<close> only, so an \<^verbatim>\<open>except Exception\<close> clause lets them pass.
\<close>

datatype exn =
    AttributeError string
  | IndexError
  | OtherException string
  | KeyboardInterrupt
  | SystemExit

fun is_Exception :: "exn \<Rightarrow> bool" where
  "is_Exception KeyboardInterrupt = False"
| "is_Exception SystemExit = False"
| "is_Exception _ = True"

fun is_AttributeError :: "exn \<Rightarrow> bool" where
  "is_AttributeError (AttributeError _) = True"
| "is_AttributeError _ = False"

datatype level = DEBUG | INFO | ERROR

datatype py_obj = Str string | Exc exn

text \<open>
  A log record as the \<^verbatim>\<open>logging\<close> module keeps it: level, message object, the
  arguments of the format string (not yet merged), and the exception attached by
  \<^verbatim>\<open>logger.exception\<close>.
\<close>

datatype log_record = LogRecord level py_obj "py_obj list" "exn option"

type_synonym logger = "log_record list"

definition logger_debug :: "string \<Rightarrow> py_obj list \<Rightarrow> logger \<Rightarrow> logger" where
  "logger_debug m as lg = lg @ [LogRecord DEBUG (Str m) as None]"

definition logger_info :: "string \<Rightarrow> py_obj list \<Rightarrow> logger \<Rightarrow> logger" where
  "logger_info m as lg = lg @ [LogRecord INFO (Str m) as None]"

definition logger_error :: "py_obj \<Rightarrow> py_obj list \<Rightarrow> logger \<Rightarrow> logger" where
  "logger_error m as lg = lg @ [LogRecord ERROR m as None]"

definition logger_exception :: "string \<Rightarrow> py_obj list \<Rightarrow> exn \<Rightarrow> logger \<Rightarrow> logger" where
  "logger_exception m as e lg = lg @ [LogRecord ERROR (Str m) as (Some e)]"

subsection \<open>Device states\<close>

text \<open>
  Modelled from the spec: the enumeration \<^verbatim>\<open>DeviceState\<close> of \<^verbatim>\<open>lightpath.path\<close>,
  which the widgets import. Section 3 of the specification lists its six members with their
  ordinals, and gives the member at ordinal 4 the display name of \<open>Disconnected\<close>.
\<close>

datatype DeviceState =
    Removed
  | Inserted
  | Unknown
  | Disconnected
  | PartiallyInserted
  | Error

text \<open>Modelled from the spec: the member's \<^verbatim>\<open>.value\<close>, a Python int.\<close>

fun value_of :: "DeviceState \<Rightarrow> int" where
  "value_of Removed = 0"
| "value_of Inserted = 1"
| "value_of Unknown = 2"
| "value_of Disconnected = 3"
| "value_of PartiallyInserted = 4"
| "value_of Error = 5"

text \<open>Modelled from the spec: the member's \<^verbatim>\<open>.name\<close>, its display name.\<close>

fun name_of :: "DeviceState \<Rightarrow> string" where
  "name_of Removed = ''Removed''"
| "name_of Inserted = ''Inserted''"
| "name_of Unknown = ''Unknown''"
| "name_of Disconnected = ''Disconnected''"
| "name_of PartiallyInserted = ''Disconnected''"
| "name_of Error = ''Error''"

text \<open>
  Modelled from the spec: the classifier behind \<^verbatim>\<open>find_device_state\<close> of
  \<^verbatim>\<open>lightpath.path\<close>, rules 2 to 6 of the decision table of section 4.1, in that
  order. A signal is \<open>None\<close> when its value is unreadable or the attribute is absent.
\<close>

definition classify :: "bool option \<Rightarrow> bool option \<Rightarrow> DeviceState" where
  "classify ins rem =
     (if ins = None \<or> rem = None then Disconnected
      else if ins = Some True \<and> rem = Some True then Error
      else if ins = Some True \<and> rem = Some False then Inserted
      else if ins = Some False \<and> rem = Some True then Removed
      else Unknown)"

subsection \<open>Colours\<close>

datatype QColor = QColor (red: int) (green: int) (blue: int)

definition state_colors :: "QColor list" where
  "state_colors =
     [QColor 124 252 0,
      QColor 255 0 0,
      QColor 255 215 0,
      QColor 255 215 0,
      QColor 255 0 255,
      QColor 255 0 255]"

text \<open>
  Python's \<^verbatim>\<open>xs[i]\<close> on a list: a negative index counts from the end, and an index
  outside the list raises \<open>IndexError\<close>.
\<close>

definition getitem :: "'a list \<Rightarrow> int \<Rightarrow> exn + 'a" where
  "getitem xs i =
     (if 0 \<le> i \<and> i < int (length xs) then Inr (xs ! nat i)
      else if i < 0 \<and> - int (length xs) \<le> i then Inr (xs ! nat (int (length xs) + i))
      else Inl IndexError)"

subsection \<open>Style sheets\<close>

text \<open>Python's \<^verbatim>\<open>repr\<close> of an int: its decimal digits, with a sign when negative.\<close>

definition digit_char :: "nat \<Rightarrow> char" where
  "digit_char k = ''0123456789'' ! k"

fun digits :: "nat \<Rightarrow> string" where
  "digits n = (if n < 10 then [digit_char n] else digits (n div 10) @ [digit_char (n mod 10)])"

declare digits.simps [simp del]

definition repr_int :: "int \<Rightarrow> string" where
  "repr_int i = (if i < 0 then CHR ''-'' # digits (nat (- i)) else digits (nat i))"

definition to_stylesheet_color :: "QColor \<Rightarrow> string" where
  "to_stylesheet_color color =
     ''rgb('' @ repr_int (red color) @ '', '' @ repr_int (green color) @ '', ''
       @ repr_int (blue color) @ '')''"






subsection \<open>Devices\<close>

text \<open>
  The device is an object of the external device library. The widgets read its
  \<^verbatim>\<open>name\<close> and \<^verbatim>\<open>prefix\<close> (every device of that library has both) and the
  optional attribute \<^verbatim>\<open>_icon\<close> (the field \<open>icon_attr\<close>), and call
  \<^verbatim>\<open>subscribe\<close>, \<^verbatim>\<open>insert\<close> and \<^verbatim>\<open>remove\<close> when the device has them.
  An optional attribute or method is \<open>None\<close> when the object lacks it.
  What a method does is the device's own business: it is a function from what it is given
  to the exception it raises, if any, and to the signals it leaves behind.
\<close>

text \<open>
  Modelled from the spec: what reading a signal of the device gives, the input of
  \<^verbatim>\<open>find_device_state\<close>. The read raises, or yields a boolean or \<open>None\<close>.
\<close>

datatype reading = ReadError | Reading "bool option"

record signals =
  inserted :: reading
  removed :: reading

datatype callback = Update_state

datatype subscription = Subscription (cb: callback) (event_type: string) (run: bool)

record device =
  name :: string
  prefix :: string
  icon_attr :: "string option"
  signals :: signals
  SUB_STATE :: "string option"
  subscribe_method :: "(subscription \<Rightarrow> exn option) option"
  subs :: "subscription list"
  insert_method :: "(signals \<Rightarrow> exn option \<times> signals) option"
  remove_method :: "(signals \<Rightarrow> exn option \<times> signals) option"

text \<open>
  Modelled from the spec: \<^verbatim>\<open>find_device_state\<close> of \<^verbatim>\<open>lightpath.path\<close>. Rule 1 of
  the decision table comes first (a signal whose read raised makes the state \<open>Error\<close>),
  then the classifier decides.
\<close>

definition find_device_state :: "device \<Rightarrow> DeviceState" where
  "find_device_state d =
     (case (inserted (signals d), removed (signals d)) of
        (Reading ins, Reading rem) \<Rightarrow> classify ins rem
      | _ \<Rightarrow> Error)"

text \<open>\<^verbatim>\<open>getattr(device, '_icon')\<close>.\<close>

definition getattr_icon :: "device \<Rightarrow> exn + string" where
  "getattr_icon d = (case icon_attr d of None \<Rightarrow> Inl (AttributeError ''_icon'') | Some s \<Rightarrow> Inr s)"

text \<open>
  \<^verbatim>\<open>device.subscribe(cb, event_type=device.SUB_STATE, run=run)\<close>: the method is looked
  up first, then the event type; a call that returns has registered the callback.
\<close>

definition device_subscribe :: "device \<Rightarrow> callback \<Rightarrow> bool \<Rightarrow> exn option \<times> device" where
  "device_subscribe d c r =
     (case subscribe_method d of
        None \<Rightarrow> (Some (AttributeError ''subscribe''), d)
      | Some f \<Rightarrow>
          (case SUB_STATE d of
             None \<Rightarrow> (Some (AttributeError ''SUB_STATE''), d)
           | Some ev \<Rightarrow>
               (case f (Subscription c ev r) of
                  Some e \<Rightarrow> (Some e, d)
                | None \<Rightarrow> (None, d\<lparr>subs := subs d @ [Subscription c ev r]\<rparr>))))"

text \<open>\<^verbatim>\<open>hasattr(device, 'insert')\<close> and \<^verbatim>\<open>hasattr(device, 'remove')\<close>.\<close>

definition hasattr_insert :: "device \<Rightarrow> bool" where
  "hasattr_insert d = (insert_method d \<noteq> None)"

definition hasattr_remove :: "device \<Rightarrow> bool" where
  "hasattr_remove d = (remove_method d \<noteq> None)"

text \<open>\<^verbatim>\<open>device.insert()\<close> and \<^verbatim>\<open>device.remove()\<close>.\<close>

definition device_insert :: "device \<Rightarrow> exn option \<times> device" where
  "device_insert d =
     (case insert_method d of
        None \<Rightarrow> (Some (AttributeError ''insert''), d)
      | Some f \<Rightarrow> (case f (signals d) of (r, s) \<Rightarrow> (r, d\<lparr>signals := s\<rparr>)))"

definition device_remove :: "device \<Rightarrow> exn option \<times> device" where
  "device_remove d =
     (case remove_method d of
        None \<Rightarrow> (Some (AttributeError ''remove''), d)
      | Some f \<Rightarrow> (case f (signals d) of (r, s) \<Rightarrow> (r, d\<lparr>signals := s\<rparr>)))"

subsection \<open>The symbol of a device\<close>

definition symbol_for_device :: "device \<Rightarrow> logger \<Rightarrow> (exn + string) \<times> logger" where
  "symbol_for_device d lg =
     (case getattr_icon d of
        Inr s \<Rightarrow> (Inr s, lg)
      | Inl exc \<Rightarrow>
          if is_AttributeError exc
          then (Inr ''fa.square'', logger_debug ''No symbol found %s'' [Str (name d)] lg)
          else (Inl exc, lg))"

subsection \<open>The device drawing\<close>

text \<open>
  \<^verbatim>\<open>qta.icon\<close> belongs to the icon library: it is a parameter \<open>qta\<close> of the functions
  that call it, giving for a symbol name and a colour either the exception raised or
  the icon. The pixmap of the label is the icon it was rendered from.
\<close>

datatype QIcon = QIcon string QColor

record DeviceWidget =
  symbol :: string
  minimumSize :: "nat \<times> nat"
  maximumSize :: "nat \<times> nat"
  pixmap :: "QIcon option"

definition DeviceWidget_init :: "device \<Rightarrow> logger \<Rightarrow> (exn + DeviceWidget) \<times> logger" where
  "DeviceWidget_init d lg =
     (case symbol_for_device d lg of
        (Inl e, lg') \<Rightarrow> (Inl e, lg')
      | (Inr s, lg') \<Rightarrow>
          (Inr \<lparr>symbol = s, minimumSize = (10, 10), maximumSize = (50, 50), pixmap = None\<rparr>, lg'))"

definition setColor ::
  "(string \<Rightarrow> QColor \<Rightarrow> exn + QIcon) \<Rightarrow> DeviceWidget \<Rightarrow> QColor \<Rightarrow> logger
     \<Rightarrow> exn option \<times> DeviceWidget \<times> logger" where
  "setColor qta self color lg =
     (case qta (symbol self) color of
        Inl exc \<Rightarrow>
          if is_Exception exc
          then (None, self, logger_exception ''Unable to load icon %r'' [Str (symbol self)] exc lg)
          else (Some exc, self, lg)
      | Inr ic \<Rightarrow> (None, self\<lparr>pixmap := Some ic\<rparr>, lg))"

subsection \<open>Rows\<close>

text \<open>
  The widgets of a row come from the designer file \<^verbatim>\<open>device.ui\<close>; of what that file
  sets, only the initial enablement of the two buttons is not overwritten by the
  constructor, and it is a parameter of the constructors. Where the drawing sits in the
  layout of the row is left to the toolkit.
\<close>

record device_ui =
  ui_insert_enabled :: bool
  ui_remove_enabled :: bool

datatype slot = Slot_remove | Slot_insert

record InactiveRow =
  device :: device
  name_label :: string
  prefix_label :: string
  state_label_text :: string
  state_label_styleSheet :: string
  device_drawing :: DeviceWidget
  insert_button_enabled :: bool
  remove_button_enabled :: bool
  insert_button_clicked :: "slot list"
  remove_button_clicked :: "slot list"

record LightRow = InactiveRow +
  last_state :: "DeviceState option"

definition InactiveRow_init :: "device_ui \<Rightarrow> device \<Rightarrow> logger \<Rightarrow> (exn + InactiveRow) \<times> logger" where
  "InactiveRow_init ui d lg =
     (case DeviceWidget_init d lg of
        (Inl e, lg') \<Rightarrow> (Inl e, lg')
      | (Inr dw, lg') \<Rightarrow>
          (Inr \<lparr>device = d,
                name_label = name d,
                prefix_label = ''('' @ prefix d @ '')'',
                state_label_text = ''Disconnected'',
                state_label_styleSheet = ''QLabel {color : rgb(255,0,255)}'',
                device_drawing = dw,
                insert_button_enabled = ui_insert_enabled ui,
                remove_button_enabled = ui_remove_enabled ui,
                insert_button_clicked = [],
                remove_button_clicked = []\<rparr>, lg'))"

definition LightRow_init :: "device_ui \<Rightarrow> device \<Rightarrow> logger \<Rightarrow> (exn + LightRow) \<times> logger" where
  "LightRow_init ui d lg =
     (case InactiveRow_init ui d lg of
        (Inl e, lg') \<Rightarrow> (Inl e, lg')
      | (Inr r, lg') \<Rightarrow>
          (let self = InactiveRow.extend r (LightRow.fields None);
               self = self\<lparr>remove_button_clicked := remove_button_clicked self @ [Slot_remove]\<rparr>;
               self = self\<lparr>insert_button_clicked := insert_button_clicked self @ [Slot_insert]\<rparr>
           in case device_subscribe (device self) Update_state False of
                (None, d') \<Rightarrow> (Inr (self\<lparr>device := d'\<rparr>), lg')
              | (Some exc, d') \<Rightarrow>
                  if is_Exception exc
                  then (Inr (self\<lparr>device := d'\<rparr>),
                        logger_error (Str ''Widget is unable to subscribe to device %s'')
                          [Str (name d)] lg')
                  else (Inl exc, lg')))"

definition LightRow_remove :: "LightRow \<Rightarrow> logger \<Rightarrow> exn option \<times> LightRow \<times> logger" where
  "LightRow_remove self lg =
     (let lg1 = logger_info ''Removing device %s ...'' [Str (name (device self))] lg
      in case device_remove (device self) of
           (None, d') \<Rightarrow> (None, self\<lparr>device := d'\<rparr>, lg1)
         | (Some exc, d') \<Rightarrow>
             if is_Exception exc
             then (None, self\<lparr>device := d'\<rparr>, logger_error (Exc exc) [] lg1)
             else (Some exc, self\<lparr>device := d'\<rparr>, lg1))"

definition LightRow_insert :: "LightRow \<Rightarrow> logger \<Rightarrow> exn option \<times> LightRow \<times> logger" where
  "LightRow_insert self lg =
     (let lg1 = logger_info ''Inserting device %s ...'' [Str (name (device self))] lg
      in case device_insert (device self) of
           (None, d') \<Rightarrow> (None, self\<lparr>device := d'\<rparr>, lg1)
         | (Some exc, d') \<Rightarrow>
             if is_Exception exc
             then (None, self\<lparr>device := d'\<rparr>, logger_error (Exc exc) [] lg1)
             else (Some exc, self\<lparr>device := d'\<rparr>, lg1))"

text \<open>
  \<^verbatim>\<open>update_state\<close> interprets the device with \<^verbatim>\<open>find_device_state\<close>, imported from
  \<^verbatim>\<open>lightpath.path\<close>: the classifier is the parameter \<open>fds\<close>, so what is proved of
  \<open>update_state\<close> holds for whatever classifier is imported. A statement that raises
  leaves the row as the statements before it made it.
\<close>

definition update_state ::
  "(device \<Rightarrow> DeviceState) \<Rightarrow> (string \<Rightarrow> QColor \<Rightarrow> exn + QIcon) \<Rightarrow> LightRow \<Rightarrow> logger
     \<Rightarrow> exn option \<times> LightRow \<times> logger" where
  "update_state fds qta self lg =
     (let st = fds (device self);
          self = self\<lparr>last_state := Some st\<rparr>;
          self = self\<lparr>state_label_text := name_of st\<rparr>
      in case getitem state_colors (value_of st) of
           Inl e \<Rightarrow> (Some e, self, lg)
         | Inr color \<Rightarrow>
             (let style_color = to_stylesheet_color color;
                  self = self\<lparr>state_label_styleSheet := ''QLabel {color: '' @ style_color @ ''}''\<rparr>
              in case setColor qta (device_drawing self) color lg of
                   (Some e, dw, lg') \<Rightarrow> (Some e, self\<lparr>device_drawing := dw\<rparr>, lg')
                 | (None, dw, lg') \<Rightarrow>
                     (let self = self\<lparr>device_drawing := dw\<rparr>;
                          self = self\<lparr>insert_button_enabled :=
                                   (st \<noteq> Inserted \<and> hasattr_insert (device self))\<rparr>;
                          self = self\<lparr>remove_button_enabled :=
                                   (st \<noteq> Removed \<and> hasattr_remove (device self))\<rparr>
                      in (None, self, lg'))))"


subsection \<open>What a row shows\<close>

text \<open>
  The observable state of a row: the text and style sheet of the state label, the icon
  drawn, and the enablement of the two buttons.
\<close>

definition observable :: "LightRow \<Rightarrow> string \<times> string \<times> QIcon option \<times> bool \<times> bool" where
  "observable self =
     (state_label_text self, state_label_styleSheet self, pixmap (device_drawing self),
      insert_button_enabled self, remove_button_enabled self)"

text \<open>
  The \<^verbatim>\<open>setColor\<close> calls one drawing receives over its life, one for each
  \<^verbatim>\<open>update_state\<close> of its row, in order; a call that raises ends the run.
\<close>

fun setColor_calls ::
  "(string \<Rightarrow> QColor \<Rightarrow> exn + QIcon) \<Rightarrow> DeviceWidget \<Rightarrow> QColor list \<Rightarrow> logger
     \<Rightarrow> exn option \<times> DeviceWidget \<times> logger" where
  "setColor_calls qta self [] lg = (None, self, lg)"
| "setColor_calls qta self (c # cs) lg =
     (case setColor qta self c lg of
        (None, self', lg') \<Rightarrow> setColor_calls qta self' cs lg'
      | (Some e, self', lg') \<Rightarrow> (Some e, self', lg'))"

subsection \<open>Sample devices\<close>

text \<open>
  Concrete inputs for the instances below. \<open>qta_sample\<close> is an icon library that
  knows two glyphs and raises for every other name. \<open>mirror\<close> is a device that reports
  inserted, names an icon the library does not know, accepts subscriptions, inserts at once
  and fails to remove; \<open>stopper\<close> is a bare device: no icon, no subscription, no actions,
  signals unreadable. \<open>mirror_row\<close> and \<open>stopper_row\<close> are their rows as constructed.
\<close>

definition qta_sample :: "string \<Rightarrow> QColor \<Rightarrow> exn + QIcon" where
  "qta_sample s c =
     (if s = ''fa.square'' \<or> s = ''fa.adjust'' then Inr (QIcon s c)
      else Inl (OtherException ''Invalid icon name''))"

definition mirror :: device where
  "mirror =
     \<lparr>name = ''mirror'',
      prefix = ''MIRR:01'',
      icon_attr = Some ''fa.mirror'',
      signals = \<lparr>inserted = Reading (Some True), removed = Reading (Some False)\<rparr>,
      SUB_STATE = Some ''sub_state_changed'',
      subscribe_method = Some (\<lambda>s. None),
      subs = [],
      insert_method = Some (\<lambda>s. (None, s)),
      remove_method = Some (\<lambda>s. (Some (OtherException ''motor stalled''), s))\<rparr>"

definition stopper :: device where
  "stopper =
     \<lparr>name = ''stopper'',
      prefix = ''STP:02'',
      icon_attr = None,
      signals = \<lparr>inserted = Reading None, removed = Reading None\<rparr>,
      SUB_STATE = None,
      subscribe_method = None,
      subs = [],
      insert_method = None,
      remove_method = None\<rparr>"

definition designer_ui :: device_ui where
  "designer_ui = \<lparr>ui_insert_enabled = True, ui_remove_enabled = True\<rparr>"

definition mirror_row :: LightRow where
  "mirror_row =
     \<lparr>device = mirror\<lparr>subs := [Subscription Update_state ''sub_state_changed'' False]\<rparr>,
      name_label = ''mirror'',
      prefix_label = ''(MIRR:01)'',
      state_label_text = ''Disconnected'',
      state_label_styleSheet = ''QLabel {color : rgb(255,0,255)}'',
      device_drawing =
        \<lparr>symbol = ''fa.mirror'', minimumSize = (10, 10), maximumSize = (50, 50), pixmap = None\<rparr>,
      insert_button_enabled = True,
      remove_button_enabled = True,
      insert_button_clicked = [Slot_insert],
      remove_button_clicked = [Slot_remove],
      last_state = None\<rparr>"

definition stopper_row :: LightRow where
  "stopper_row =
     \<lparr>device = stopper,
      name_label = ''stopper'',
      prefix_label = ''(STP:02)'',
      state_label_text = ''Disconnected'',
      state_label_styleSheet = ''QLabel {color : rgb(255,0,255)}'',
      device_drawing =
        \<lparr>symbol = ''fa.square'', minimumSize = (10, 10), maximumSize = (50, 50), pixmap = None\<rparr>,
      insert_button_enabled = True,
      remove_button_enabled = True,
      insert_button_clicked = [Slot_insert],
      remove_button_clicked = [Slot_remove],
      last_state = None\<rparr>"

section \<open>Properties\<close>

subsection \<open>Helper facts\<close>

lemma DeviceState_UNIV:
  "(UNIV :: DeviceState set) = {Removed, Inserted, Unknown, Disconnected, PartiallyInserted, Error}"
proof
  show "UNIV \<subseteq> {Removed, Inserted, Unknown, Disconnected, PartiallyInserted, Error}"
  proof
    fix s :: DeviceState
    show "s \<in> {Removed, Inserted, Unknown, Disconnected, PartiallyInserted, Error}"
      by (cases s) simp_all
  qed
qed simp

lemma getitem_state_colors:
  "getitem state_colors (value_of s) = Inr (state_colors ! nat (value_of s))"
  by (cases s) (simp_all add: getitem_def state_colors_def)

lemma setColor_returns:
  assumes "\<And>e. qta (symbol self) color = Inl e \<Longrightarrow> is_Exception e"
  shows "fst (setColor qta self color lg) = None"
  using assms by (auto simp: setColor_def split: sum.splits)

lemma setColor_failure:
  assumes "qta (symbol self) color = Inl exc" and "is_Exception exc"
  shows "setColor qta self color lg =
           (None, self,
            lg @ [LogRecord ERROR (Str ''Unable to load icon %r'') [Str (symbol self)] (Some exc)])"
  using assms by (simp add: setColor_def logger_exception_def)

lemma setColor_calls_failure:
  assumes "\<forall>c. \<exists>exc. qta (symbol self) c = Inl exc \<and> is_Exception exc"
  shows "\<exists>lg'. setColor_calls qta self cs lg = (None, self, lg')
           \<and> length lg' = length lg + length cs"
proof (induction cs arbitrary: lg)
  case Nil
  show ?case by simp
next
  case (Cons c cs)
  from assms obtain exc where e: "qta (symbol self) c = Inl exc" "is_Exception exc"
    by blast
  let ?lg = "lg @ [LogRecord ERROR (Str ''Unable to load icon %r'') [Str (symbol self)] (Some exc)]"
  from Cons.IH [of ?lg] obtain lg' where
    "setColor_calls qta self cs ?lg = (None, self, lg')" "length lg' = length ?lg + length cs"
    by blast
  with setColor_failure [of qta self c exc lg] e show ?case by simp
qed

lemma update_state_device:
  "device (fst (snd (update_state fds qta self lg))) = device self"
  by (simp add: update_state_def Let_def getitem_state_colors split: prod.splits option.splits)



lemma symbol_for_device_eq:
  "symbol_for_device d lg =
     (case icon_attr d of
        Some s \<Rightarrow> (Inr s, lg)
      | None \<Rightarrow>
          (Inr ''fa.square'',
           lg @ [LogRecord DEBUG (Str ''No symbol found %s'') [Str (name d)] None]))"
  by (simp add: symbol_for_device_def getattr_icon_def logger_debug_def split: option.splits)

lemma DeviceWidget_init_eq:
  "DeviceWidget_init d lg =
     (Inr \<lparr>symbol = (case icon_attr d of None \<Rightarrow> ''fa.square'' | Some s \<Rightarrow> s),
           minimumSize = (10, 10), maximumSize = (50, 50), pixmap = None\<rparr>,
      snd (symbol_for_device d lg))"
  by (simp add: DeviceWidget_init_def symbol_for_device_eq split: option.splits)

lemma InactiveRow_init_eq:
  "InactiveRow_init ui d lg =
     (Inr \<lparr>device = d,
           name_label = name d,
           prefix_label = ''('' @ prefix d @ '')'',
           state_label_text = ''Disconnected'',
           state_label_styleSheet = ''QLabel {color : rgb(255,0,255)}'',
           device_drawing =
             \<lparr>symbol = (case icon_attr d of None \<Rightarrow> ''fa.square'' | Some s \<Rightarrow> s),
              minimumSize = (10, 10), maximumSize = (50, 50), pixmap = None\<rparr>,
           insert_button_enabled = ui_insert_enabled ui,
           remove_button_enabled = ui_remove_enabled ui,
           insert_button_clicked = [],
           remove_button_clicked = []\<rparr>,
      snd (symbol_for_device d lg))"
  by (simp add: InactiveRow_init_def DeviceWidget_init_eq)

lemma LightRow_init_eq:
  "LightRow_init ui d lg =
     (let self = \<lparr>device = d,
           name_label = name d,
           prefix_label = ''('' @ prefix d @ '')'',
           state_label_text = ''Disconnected'',
           state_label_styleSheet = ''QLabel {color : rgb(255,0,255)}'',
           device_drawing =
             \<lparr>symbol = (case icon_attr d of None \<Rightarrow> ''fa.square'' | Some s \<Rightarrow> s),
              minimumSize = (10, 10), maximumSize = (50, 50), pixmap = None\<rparr>,
           insert_button_enabled = ui_insert_enabled ui,
           remove_button_enabled = ui_remove_enabled ui,
           insert_button_clicked = [Slot_insert],
           remove_button_clicked = [Slot_remove],
           last_state = None\<rparr>;
          lg' = snd (symbol_for_device d lg)
      in case device_subscribe d Update_state False of
           (None, d') \<Rightarrow> (Inr (self\<lparr>device := d'\<rparr>), lg')
         | (Some exc, d') \<Rightarrow>
             if is_Exception exc
             then (Inr (self\<lparr>device := d'\<rparr>),
                   lg' @ [LogRecord ERROR (Str ''Widget is unable to subscribe to device %s'')
                            [Str (name d)] None])
             else (Inl exc, lg'))"
  by (simp add: LightRow_init_def InactiveRow_init_eq InactiveRow.extend_def LightRow.fields_def
      logger_error_def Let_def split: prod.splits option.splits)


lemma qta_sample_fails:
  "qta_sample ''fa.mirror'' c = Inl (OtherException ''Invalid icon name'')"
  by (simp add: qta_sample_def)

lemma find_device_state_mirror: "find_device_state mirror = Inserted"
  by (simp add: find_device_state_def mirror_def classify_def)

lemma find_device_state_stopper: "find_device_state stopper = Disconnected"
  by (simp add: find_device_state_def stopper_def classify_def)

subsection \<open>The classifier\<close>

text \<open>
  C1. The classifier follows the decision table: both signals true is \<open>Error\<close>, inserted
  alone is \<open>Inserted\<close>, removed alone is \<open>Removed\<close>, neither is \<open>Unknown\<close>, and a
  \<open>None\<close> on either side is \<open>Disconnected\<close> whatever the other signal is. It is a total
  function whose result is always one of these five states.
\<close>

theorem classify_decision_table:
  "classify (Some True) (Some True) = Error
   \<and> classify (Some True) (Some False) = Inserted
   \<and> classify (Some False) (Some True) = Removed
   \<and> classify (Some False) (Some False) = Unknown
   \<and> (\<forall>rem. classify None rem = Disconnected)
   \<and> (\<forall>ins. classify ins None = Disconnected)
   \<and> (\<forall>ins rem. classify ins rem \<in> {Error, Inserted, Removed, Unknown, Disconnected})"
  by (simp add: classify_def)

subsection \<open>The colour table\<close>

text \<open>
  C3. The colour table has six entries, as many as \<open>DeviceState\<close> has members, whose
  ordinals are exactly 0 to 5. Hence the lookup \<^verbatim>\<open>state_colors[state.value]\<close> is in
  bounds for every state and for every ordinal from 0 to 5: it returns the entry at that
  position and never raises \<open>IndexError\<close>.
\<close>

theorem state_colors_lookup_in_bounds:
  "length state_colors = 6
   \<and> card (UNIV :: DeviceState set) = length state_colors
   \<and> value_of ` UNIV = {0..5}
   \<and> (\<forall>s. getitem state_colors (value_of s) = Inr (state_colors ! nat (value_of s)))
   \<and> (\<forall>i \<in> {0..5}. getitem state_colors i = Inr (state_colors ! nat i))"
proof -
  have len: "length state_colors = 6"
    by (simp add: state_colors_def)
  have card: "card (UNIV :: DeviceState set) = 6"
    by (simp add: DeviceState_UNIV)
  have img: "value_of ` UNIV = {0..5}"
  proof
    show "value_of ` UNIV \<subseteq> {0..5}"
    proof
      fix i assume "i \<in> value_of ` UNIV"
      then obtain s where "i = value_of s" by blast
      then show "i \<in> {0..5}" by (cases s) simp_all
    qed
    show "{0..5} \<subseteq> value_of ` UNIV"
    proof
      fix i :: int assume "i \<in> {0..5}"
      then have "i = 0 \<or> i = 1 \<or> i = 2 \<or> i = 3 \<or> i = 4 \<or> i = 5"
        by auto
      then have "i = value_of Removed \<or> i = value_of Inserted \<or> i = value_of Unknown
          \<or> i = value_of Disconnected \<or> i = value_of PartiallyInserted \<or> i = value_of Error"
        by simp
      then show "i \<in> value_of ` UNIV" by blast
    qed
  qed
  have rng: "getitem state_colors i = Inr (state_colors ! nat i)" if "i \<in> {0..5}" for i
    using that len by (simp add: getitem_def)
  have st: "getitem state_colors (value_of s) = Inr (state_colors ! nat (value_of s))" for s
    using rng [of "value_of s"] img by blast
  from len card img st rng show ?thesis by simp
qed

theorem state_colors_lookup_in_bounds_witness:
  "(3::int) \<in> {0..5} \<and> getitem state_colors 3 = Inr (QColor 255 215 0)
   \<and> getitem state_colors (value_of Error) = Inr (QColor 255 0 255)"
  using state_colors_lookup_in_bounds by (simp add: state_colors_def)

subsection \<open>The reflector\<close>

text \<open>
  C2. After \<open>update_state\<close> has run, the insert button is enabled exactly when the
  device has an \<^verbatim>\<open>insert\<close> attribute and the classified state is not \<open>Inserted\<close>, and
  the remove button exactly when the device has a \<^verbatim>\<open>remove\<close> attribute and the state
  is not \<open>Removed\<close>; without an insert capability the insert button is disabled in every
  state. This holds for every classifier, every row and every log. And \<open>update_state\<close>
  does run to its end whenever the icon library fails with ordinary exceptions only.
\<close>

theorem update_state_buttons:
  "(\<forall>self' lg'. update_state fds qta self lg = (None, self', lg') \<longrightarrow>
        insert_button_enabled self'
          = (hasattr_insert (device self) \<and> fds (device self) \<noteq> Inserted)
      \<and> remove_button_enabled self'
          = (hasattr_remove (device self) \<and> fds (device self) \<noteq> Removed)
      \<and> (\<not> hasattr_insert (device self) \<longrightarrow> \<not> insert_button_enabled self'))
   \<and> ((\<forall>c e. qta (symbol (device_drawing self)) c = Inl e \<longrightarrow> is_Exception e) \<longrightarrow>
        fst (update_state fds qta self lg) = None)"
proof (intro conjI allI impI)
  fix self' lg'
  assume "update_state fds qta self lg = (None, self', lg')"
  then have "insert_button_enabled self'
          = (hasattr_insert (device self) \<and> fds (device self) \<noteq> Inserted)
      \<and> remove_button_enabled self'
          = (hasattr_remove (device self) \<and> fds (device self) \<noteq> Removed)"
    by (auto simp: update_state_def Let_def getitem_state_colors
        split: prod.splits option.splits)
  then show "insert_button_enabled self'
          = (hasattr_insert (device self) \<and> fds (device self) \<noteq> Inserted)"
    and "remove_button_enabled self'
          = (hasattr_remove (device self) \<and> fds (device self) \<noteq> Removed)"
    and "\<not> hasattr_insert (device self) \<Longrightarrow> \<not> insert_button_enabled self'"
    by simp_all
next
  let ?st = "fds (device self)"
  let ?c = "state_colors ! nat (value_of ?st)"
  let ?w = "self\<lparr>last_state := Some ?st, state_label_text := name_of ?st,
              state_label_styleSheet := ''QLabel {color: '' @ to_stylesheet_color ?c @ ''}''\<rparr>"
  assume h: "\<forall>c e. qta (symbol (device_drawing self)) c = Inl e \<longrightarrow> is_Exception e"
  have "fst (setColor qta (device_drawing ?w) ?c lg) = None"
    by (rule setColor_returns) (use h in simp)
  then obtain dw lg' where "setColor qta (device_drawing ?w) ?c lg = (None, dw, lg')"
    by (cases "setColor qta (device_drawing ?w) ?c lg") auto
  then show "fst (update_state fds qta self lg) = None"
    by (simp add: update_state_def Let_def getitem_state_colors)
qed

theorem update_state_buttons_witness:
  "fst (update_state find_device_state qta_sample mirror_row []) = None
   \<and> insert_button_enabled (fst (snd (update_state find_device_state qta_sample mirror_row [])))
       = False
   \<and> remove_button_enabled (fst (snd (update_state find_device_state qta_sample mirror_row [])))
       = True
   \<and> insert_button_enabled (fst (snd (update_state find_device_state qta_sample stopper_row [])))
       = False"
proof -
  let ?M = "update_state find_device_state qta_sample mirror_row []"
  let ?S = "update_state find_device_state qta_sample stopper_row []"
  have hm: "\<forall>c e. qta_sample (symbol (device_drawing mirror_row)) c = Inl e \<longrightarrow> is_Exception e"
    by (auto simp: mirror_row_def qta_sample_fails)
  have hs: "\<forall>c e. qta_sample (symbol (device_drawing stopper_row)) c = Inl e \<longrightarrow> is_Exception e"
    by (simp add: stopper_row_def qta_sample_def)
  have fm: "find_device_state (device mirror_row) = Inserted"
    by (simp add: mirror_row_def find_device_state_def mirror_def classify_def)
  have im: "hasattr_insert (device mirror_row)" "hasattr_remove (device mirror_row)"
    by (simp_all add: hasattr_insert_def hasattr_remove_def mirror_row_def mirror_def)
  have ins: "\<not> hasattr_insert (device stopper_row)"
    by (simp add: hasattr_insert_def stopper_row_def stopper_def)
  note m = update_state_buttons [where qta = qta_sample and self = mirror_row
      and fds = find_device_state and lg = "[]"]
  note s = update_state_buttons [where qta = qta_sample and self = stopper_row
      and fds = find_device_state and lg = "[]"]
  from m hm have rm: "fst ?M = None"
    by blast
  then have "?M = (None, fst (snd ?M), snd (snd ?M))"
    by (metis prod.collapse)
  from m [THEN conjunct1, rule_format, OF this] fm im
  have 1: "insert_button_enabled (fst (snd ?M)) = False
      \<and> remove_button_enabled (fst (snd ?M)) = True"
    by simp
  from s hs have "fst ?S = None"
    by blast
  then have "?S = (None, fst (snd ?S), snd (snd ?S))"
    by (metis prod.collapse)
  from s [THEN conjunct1, rule_format, OF this] ins
  have 2: "insert_button_enabled (fst (snd ?S)) = False"
    by simp
  from rm 1 2 show ?thesis by simp
qed

text \<open>
  C4. The label text that \<open>update_state\<close> sets is the display name of the classified
  state, whatever happens afterwards in the call; the display name \<open>''Disconnected''\<close>
  belongs to both the \<open>Disconnected\<close> and the \<open>PartiallyInserted\<close> state.
\<close>

theorem update_state_label:
  "state_label_text (fst (snd (update_state fds qta self lg))) = name_of (fds (device self))
   \<and> name_of Disconnected = ''Disconnected''
   \<and> name_of PartiallyInserted = ''Disconnected''"
  by (simp add: update_state_def Let_def getitem_state_colors split: prod.splits option.splits)

theorem update_state_label_witness:
  "state_label_text (fst (snd (update_state find_device_state qta_sample mirror_row [])))
     = ''Inserted''
   \<and> state_label_text (fst (snd (update_state (\<lambda>d. PartiallyInserted) qta_sample stopper_row [])))
     = ''Disconnected''
   \<and> state_label_text (fst (snd (update_state find_device_state qta_sample stopper_row [])))
     = ''Disconnected''"
proof -
  have fm: "find_device_state (device mirror_row) = Inserted"
    by (simp add: mirror_row_def find_device_state_def mirror_def classify_def)
  have fs: "find_device_state (device stopper_row) = Disconnected"
    by (simp add: stopper_row_def find_device_state_stopper)
  from update_state_label [of find_device_state qta_sample mirror_row "[]"]
    update_state_label [of "\<lambda>d. PartiallyInserted" qta_sample stopper_row "[]"]
    update_state_label [of find_device_state qta_sample stopper_row "[]"]
    fm fs
  show ?thesis by simp
qed

subsection \<open>Idempotence of the reflector\<close>

text \<open>
  C9. Run \<open>update_state\<close> once, and again on the row it left, while the device is
  classified the same and has the same capabilities (it may have changed otherwise):
  the second run ends as the first did, and the row shows exactly what it showed after
  the first, the same label text, style sheet, icon and button enablement.
\<close>

theorem update_state_idempotent:
  assumes "update_state fds qta self lg = (r1, self1, lg1)"
    and "fds d' = fds (device self)"
    and "hasattr_insert d' = hasattr_insert (device self)"
    and "hasattr_remove d' = hasattr_remove (device self)"
    and "update_state fds qta (self1\<lparr>device := d'\<rparr>) lg1 = (r2, self2, lg2)"
  shows "r2 = r1 \<and> self2 = self1\<lparr>device := d'\<rparr> \<and> observable self2 = observable self1"
proof -
  let ?c = "state_colors ! nat (value_of (fds (device self)))"
  show ?thesis
  proof (cases "qta (symbol (device_drawing self)) ?c")
    case (Inl e)
    with assms show ?thesis
      by (auto simp: update_state_def setColor_def Let_def getitem_state_colors observable_def
          split: if_splits)
  next
    case (Inr ic)
    with assms show ?thesis
      by (auto simp: update_state_def setColor_def Let_def getitem_state_colors observable_def)
  qed
qed

theorem update_state_idempotent_witness:
  "observable (fst (snd (update_state find_device_state qta_sample
        (fst (snd (update_state find_device_state qta_sample stopper_row [])))
        (snd (snd (update_state find_device_state qta_sample stopper_row []))))))
     = observable (fst (snd (update_state find_device_state qta_sample stopper_row [])))
   \<and> observable (fst (snd (update_state find_device_state qta_sample stopper_row [])))
     = (''Disconnected'', ''QLabel {color: rgb(255, 215, 0)}'',
        Some (QIcon ''fa.square'' (QColor 255 215 0)), False, False)"
proof -
  let ?X = "update_state find_device_state qta_sample stopper_row []"
  let ?Y = "update_state find_device_state qta_sample (fst (snd ?X)) (snd (snd ?X))"
  have a1: "?X = (fst ?X, fst (snd ?X), snd (snd ?X))"
    by simp
  have "device (fst (snd ?X)) = stopper"
    by (simp add: update_state_device stopper_row_def)
  then have dv: "(fst (snd ?X))\<lparr>device := stopper\<rparr> = fst (snd ?X)"
    by (metis LightRow.surjective InactiveRow.update_convs(1) InactiveRow.select_convs(1))
  have a2: "find_device_state stopper = find_device_state (device stopper_row)"
    and a3: "hasattr_insert stopper = hasattr_insert (device stopper_row)"
    and a4: "hasattr_remove stopper = hasattr_remove (device stopper_row)"
    by (simp_all add: stopper_row_def)
  have a5: "update_state find_device_state qta_sample ((fst (snd ?X))\<lparr>device := stopper\<rparr>)
      (snd (snd ?X)) = (fst ?Y, fst (snd ?Y), snd (snd ?Y))"
    by (simp add: dv)
  from update_state_idempotent [OF a1 a2 a3 a4 a5]
  have 1: "observable (fst (snd ?Y)) = observable (fst (snd ?X))"
    by blast
  have 2: "observable (fst (snd ?X))
     = (''Disconnected'', ''QLabel {color: rgb(255, 215, 0)}'',
        Some (QIcon ''fa.square'' (QColor 255 215 0)), False, False)"
    by code_simp
  from 1 2 show ?thesis by simp
qed

subsection \<open>Construction\<close>




text \<open>
  C8. The constructor of a \<open>LightRow\<close> subscribes \<open>update_state\<close> once, with
  \<^verbatim>\<open>run=False\<close>: on a device that accepts the subscription the registrations of the
  device grow by exactly that one. When the subscription raises an exception (the device has
  no \<^verbatim>\<open>subscribe\<close>, no \<^verbatim>\<open>SUB_STATE\<close>, or the call fails), the constructor still
  returns the row, having logged one error; nothing is registered and the row keeps the
  \<open>Disconnected\<close> display of its construction.
\<close>

theorem LightRow_init_subscribes:
  "(\<forall>f ev. subscribe_method d = Some f \<and> SUB_STATE d = Some ev
        \<and> f (Subscription Update_state ev False) = None \<longrightarrow>
      (\<exists>self. LightRow_init ui d lg = (Inr self, snd (symbol_for_device d lg))
         \<and> subs (device self) = subs d @ [Subscription Update_state ev False]))
   \<and> (\<forall>exc d'. device_subscribe d Update_state False = (Some exc, d') \<and> is_Exception exc \<longrightarrow>
      (\<exists>self. LightRow_init ui d lg =
           (Inr self,
            snd (symbol_for_device d lg)
              @ [LogRecord ERROR (Str ''Widget is unable to subscribe to device %s'')
                   [Str (name d)] None])
         \<and> subs (device self) = subs d
         \<and> state_label_text self = ''Disconnected''
         \<and> state_label_styleSheet self = ''QLabel {color : rgb(255,0,255)}''
         \<and> pixmap (device_drawing self) = None
         \<and> last_state self = None))"
proof (intro conjI allI impI)
  fix f ev
  assume "subscribe_method d = Some f \<and> SUB_STATE d = Some ev
        \<and> f (Subscription Update_state ev False) = None"
  then have "device_subscribe d Update_state False
      = (None, d\<lparr>subs := subs d @ [Subscription Update_state ev False]\<rparr>)"
    by (simp add: device_subscribe_def)
  then show "\<exists>self. LightRow_init ui d lg = (Inr self, snd (symbol_for_device d lg))
         \<and> subs (device self) = subs d @ [Subscription Update_state ev False]"
    by (simp add: LightRow_init_eq)
next
  fix exc d'
  assume a: "device_subscribe d Update_state False = (Some exc, d') \<and> is_Exception exc"
  then have "d' = d"
    by (auto simp: device_subscribe_def split: option.splits)
  with a show "\<exists>self. LightRow_init ui d lg =
           (Inr self,
            snd (symbol_for_device d lg)
              @ [LogRecord ERROR (Str ''Widget is unable to subscribe to device %s'')
                   [Str (name d)] None])
         \<and> subs (device self) = subs d
         \<and> state_label_text self = ''Disconnected''
         \<and> state_label_styleSheet self = ''QLabel {color : rgb(255,0,255)}''
         \<and> pixmap (device_drawing self) = None
         \<and> last_state self = None"
    by (simp add: LightRow_init_eq)
qed

theorem LightRow_init_subscribes_witness:
  "fst (LightRow_init designer_ui mirror []) = Inr mirror_row
   \<and> subs (device mirror_row) = [Subscription Update_state ''sub_state_changed'' False]
   \<and> fst (LightRow_init designer_ui (mirror\<lparr>subscribe_method := Some (\<lambda>s. Some (OtherException ''no such event''))\<rparr>) [])
       \<noteq> Inl (OtherException ''no such event'')
   \<and> snd (LightRow_init designer_ui (mirror\<lparr>subscribe_method := Some (\<lambda>s. Some (OtherException ''no such event''))\<rparr>) [])
       = [LogRecord ERROR (Str ''Widget is unable to subscribe to device %s'') [Str ''mirror''] None]"
proof -
  let ?deaf = "mirror\<lparr>subscribe_method := Some (\<lambda>s. Some (OtherException ''no such event''))\<rparr>"
  have ok: "subscribe_method mirror = Some (\<lambda>s. None) \<and> SUB_STATE mirror = Some ''sub_state_changed''
      \<and> (\<lambda>s. None) (Subscription Update_state ''sub_state_changed'' False) = None"
    by (simp add: mirror_def)
  have sm: "snd (symbol_for_device mirror []) = []" "subs mirror = []"
    by (simp_all add: symbol_for_device_eq mirror_def)
  from LightRow_init_subscribes [of mirror designer_ui "[]"] ok
  obtain self where s: "LightRow_init designer_ui mirror [] = (Inr self, snd (symbol_for_device mirror []))"
      "subs (device self) = subs mirror @ [Subscription Update_state ''sub_state_changed'' False]"
    by blast
  have "LightRow_init designer_ui mirror [] = (Inr mirror_row, [])"
    by (simp add: LightRow_init_eq symbol_for_device_eq device_subscribe_def mirror_def
        mirror_row_def designer_ui_def)
  with s sm have 1: "fst (LightRow_init designer_ui mirror []) = Inr mirror_row
      \<and> subs (device mirror_row) = [Subscription Update_state ''sub_state_changed'' False]"
    by simp
  have bad: "device_subscribe ?deaf Update_state False = (Some (OtherException ''no such event''), ?deaf)
      \<and> is_Exception (OtherException ''no such event'')"
    by (simp add: device_subscribe_def mirror_def)
  have sd: "snd (symbol_for_device ?deaf []) = []" "name ?deaf = ''mirror''"
    by (simp_all add: symbol_for_device_eq mirror_def)
  from LightRow_init_subscribes [of ?deaf designer_ui "[]"] bad
  obtain self' where "LightRow_init designer_ui ?deaf [] =
      (Inr self', snd (symbol_for_device ?deaf [])
          @ [LogRecord ERROR (Str ''Widget is unable to subscribe to device %s'') [Str (name ?deaf)] None])"
    by blast
  with sd have 2: "fst (LightRow_init designer_ui ?deaf []) \<noteq> Inl (OtherException ''no such event'')
     \<and> snd (LightRow_init designer_ui ?deaf [])
       = [LogRecord ERROR (Str ''Widget is unable to subscribe to device %s'') [Str ''mirror''] None]"
    by simp
  from 1 2 show ?thesis by simp
qed

subsection \<open>The symbol of a device\<close>

text \<open>
  C6. \<open>symbol_for_device\<close> returns the \<^verbatim>\<open>_icon\<close> attribute of the device as it is when
  the device has one, and leaves the log alone; when the attribute is absent it returns
  \<open>''fa.square''\<close> and logs one record, at debug level. It returns a symbol for every
  device: it never raises.
\<close>

theorem symbol_for_device_total:
  "(\<forall>s. icon_attr d = Some s \<longrightarrow> symbol_for_device d lg = (Inr s, lg))
   \<and> (icon_attr d = None \<longrightarrow>
        symbol_for_device d lg =
          (Inr ''fa.square'',
           lg @ [LogRecord DEBUG (Str ''No symbol found %s'') [Str (name d)] None]))
   \<and> (\<exists>s. fst (symbol_for_device d lg) = Inr s)"
  by (simp add: symbol_for_device_eq split: option.splits)

theorem symbol_for_device_total_witness:
  "symbol_for_device mirror [] = (Inr ''fa.mirror'', [])
   \<and> symbol_for_device stopper [] =
        (Inr ''fa.square'', [LogRecord DEBUG (Str ''No symbol found %s'') [Str ''stopper''] None])"
proof -
  have m: "icon_attr mirror = Some ''fa.mirror''"
    by (simp add: mirror_def)
  have s: "icon_attr stopper = None" and n: "name stopper = ''stopper''"
    by (simp_all add: stopper_def)
  from symbol_for_device_total [of mirror "[]"] m
  have 1: "symbol_for_device mirror [] = (Inr ''fa.mirror'', [])"
    by blast
  from symbol_for_device_total [of stopper "[]"] s n
  have 2: "symbol_for_device stopper [] =
        (Inr ''fa.square'', [LogRecord DEBUG (Str ''No symbol found %s'') [Str ''stopper''] None])"
    by simp
  from 1 2 show ?thesis by simp
qed

subsection \<open>The actions\<close>

text \<open>
  C7. When the \<^verbatim>\<open>insert()\<close> or \<^verbatim>\<open>remove()\<close> of the device raises an exception (a
  missing method raises \<open>AttributeError\<close>), the handler of the row returns normally: the
  log holds the announcement of the action and then the exception, at error level, and
  nothing reaches the caller. When the action returns, so does the handler, with the
  announcement alone.
\<close>

theorem action_failure_caught:
  "(\<forall>exc d'. device_insert (device self) = (Some exc, d') \<and> is_Exception exc \<longrightarrow>
      LightRow_insert self lg =
        (None, self\<lparr>device := d'\<rparr>,
         lg @ [LogRecord INFO (Str ''Inserting device %s ...'') [Str (name (device self))] None,
               LogRecord ERROR (Exc exc) [] None]))
   \<and> (\<forall>exc d'. device_remove (device self) = (Some exc, d') \<and> is_Exception exc \<longrightarrow>
      LightRow_remove self lg =
        (None, self\<lparr>device := d'\<rparr>,
         lg @ [LogRecord INFO (Str ''Removing device %s ...'') [Str (name (device self))] None,
               LogRecord ERROR (Exc exc) [] None]))
   \<and> (\<forall>d'. device_insert (device self) = (None, d') \<longrightarrow>
      LightRow_insert self lg =
        (None, self\<lparr>device := d'\<rparr>,
         lg @ [LogRecord INFO (Str ''Inserting device %s ...'') [Str (name (device self))] None]))
   \<and> (\<forall>d'. device_remove (device self) = (None, d') \<longrightarrow>
      LightRow_remove self lg =
        (None, self\<lparr>device := d'\<rparr>,
         lg @ [LogRecord INFO (Str ''Removing device %s ...'') [Str (name (device self))] None]))"
  by (simp add: LightRow_insert_def LightRow_remove_def logger_info_def logger_error_def)

theorem action_failure_caught_witness:
  "LightRow_remove mirror_row [] =
     (None, mirror_row,
      [LogRecord INFO (Str ''Removing device %s ...'') [Str ''mirror''] None,
       LogRecord ERROR (Exc (OtherException ''motor stalled'')) [] None])
   \<and> LightRow_insert stopper_row [] =
     (None, stopper_row,
      [LogRecord INFO (Str ''Inserting device %s ...'') [Str ''stopper''] None,
       LogRecord ERROR (Exc (AttributeError ''insert'')) [] None])
   \<and> LightRow_insert mirror_row [] =
     (None, mirror_row,
      [LogRecord INFO (Str ''Inserting device %s ...'') [Str ''mirror''] None])"
proof -
  have r: "device_remove (device mirror_row) = (Some (OtherException ''motor stalled''), device mirror_row)
      \<and> is_Exception (OtherException ''motor stalled'')"
    by (simp add: device_remove_def mirror_row_def mirror_def)
  have i: "device_insert (device stopper_row) = (Some (AttributeError ''insert''), device stopper_row)
      \<and> is_Exception (AttributeError ''insert'')"
    by (simp add: device_insert_def stopper_row_def stopper_def)
  have j: "device_insert (device mirror_row) = (None, device mirror_row)"
    by (simp add: device_insert_def mirror_row_def mirror_def)
  have n: "name (device mirror_row) = ''mirror''" "name (device stopper_row) = ''stopper''"
    by (simp_all add: mirror_row_def mirror_def stopper_row_def stopper_def)
  from action_failure_caught [of mirror_row "[]"] r j n
  have 1: "LightRow_remove mirror_row [] =
     (None, mirror_row,
      [LogRecord INFO (Str ''Removing device %s ...'') [Str ''mirror''] None,
       LogRecord ERROR (Exc (OtherException ''motor stalled'')) [] None])
     \<and> LightRow_insert mirror_row [] =
     (None, mirror_row,
      [LogRecord INFO (Str ''Inserting device %s ...'') [Str ''mirror''] None])"
    by simp
  from action_failure_caught [of stopper_row "[]"] i n
  have 2: "LightRow_insert stopper_row [] =
     (None, stopper_row,
      [LogRecord INFO (Str ''Inserting device %s ...'') [Str ''stopper''] None,
       LogRecord ERROR (Exc (AttributeError ''insert'')) [] None])"
    by simp
  from 1 2 show ?thesis by simp
qed

subsection \<open>Icons that fail to load\<close>

text \<open>
  C10. When \<^verbatim>\<open>qta.icon\<close> raises an exception for the symbol of the drawing,
  \<open>setColor\<close> returns normally, logs one record at error level that carries the
  exception, and leaves the drawing as it was. So a drawing whose symbol fails to load
  whatever the colour shows no icon: it has none when constructed, and after any run of
  \<open>setColor\<close> calls, none of which raises, it is unchanged.
\<close>

theorem setColor_load_failure:
  "(\<forall>exc. qta (symbol self) color = Inl exc \<and> is_Exception exc \<longrightarrow>
      setColor qta self color lg =
        (None, self,
         lg @ [LogRecord ERROR (Str ''Unable to load icon %r'') [Str (symbol self)] (Some exc)]))
   \<and> ((\<forall>c. \<exists>exc. qta (symbol self) c = Inl exc \<and> is_Exception exc)
        \<and> fst (DeviceWidget_init d lg0) = Inr self \<longrightarrow>
      (\<exists>lg'. setColor_calls qta self cs lg = (None, self, lg')
         \<and> length lg' = length lg + length cs \<and> pixmap self = None))"
proof (intro conjI allI impI)
  fix exc
  assume "qta (symbol self) color = Inl exc \<and> is_Exception exc"
  then show "setColor qta self color lg =
        (None, self,
         lg @ [LogRecord ERROR (Str ''Unable to load icon %r'') [Str (symbol self)] (Some exc)])"
    by (simp add: setColor_failure)
next
  assume a: "(\<forall>c. \<exists>exc. qta (symbol self) c = Inl exc \<and> is_Exception exc)
        \<and> fst (DeviceWidget_init d lg0) = Inr self"
  then have "pixmap self = None"
    by (auto simp: DeviceWidget_init_eq)
  with a setColor_calls_failure [of qta self cs lg]
  show "\<exists>lg'. setColor_calls qta self cs lg = (None, self, lg')
         \<and> length lg' = length lg + length cs \<and> pixmap self = None"
    by blast
qed

theorem setColor_load_failure_witness:
  "setColor qta_sample (device_drawing mirror_row) (QColor 255 0 0) [] =
     (None, device_drawing mirror_row,
      [LogRecord ERROR (Str ''Unable to load icon %r'') [Str ''fa.mirror'']
         (Some (OtherException ''Invalid icon name''))])
   \<and> fst (DeviceWidget_init mirror []) = Inr (device_drawing mirror_row)
   \<and> fst (setColor_calls qta_sample (device_drawing mirror_row)
           [QColor 255 0 0, QColor 124 252 0] []) = None
   \<and> fst (snd (setColor_calls qta_sample (device_drawing mirror_row)
           [QColor 255 0 0, QColor 124 252 0] [])) = device_drawing mirror_row
   \<and> pixmap (device_drawing mirror_row) = None"
proof -
  let ?w = "device_drawing mirror_row"
  have s: "symbol ?w = ''fa.mirror''"
    by (simp add: mirror_row_def)
  have one: "qta_sample (symbol ?w) (QColor 255 0 0) = Inl (OtherException ''Invalid icon name'')
      \<and> is_Exception (OtherException ''Invalid icon name'')"
    by (simp add: s qta_sample_fails)
  have built: "fst (DeviceWidget_init mirror []) = Inr ?w"
    by (simp add: DeviceWidget_init_eq mirror_def mirror_row_def)
  have every: "\<forall>c. \<exists>exc. qta_sample (symbol ?w) c = Inl exc \<and> is_Exception exc"
    by (simp add: s qta_sample_fails)
  note inst = setColor_load_failure [where qta = qta_sample and self = ?w
      and color = "QColor 255 0 0" and lg = "[]" and d = mirror and ?lg0.0 = "[]"
      and cs = "[QColor 255 0 0, QColor 124 252 0]"]
  from inst one s have 1: "setColor qta_sample ?w (QColor 255 0 0) [] =
     (None, ?w,
      [LogRecord ERROR (Str ''Unable to load icon %r'') [Str ''fa.mirror'']
         (Some (OtherException ''Invalid icon name''))])"
    by simp
  from inst every built obtain lg' where
    "setColor_calls qta_sample ?w [QColor 255 0 0, QColor 124 252 0] [] = (None, ?w, lg')"
    "pixmap ?w = None"
    by blast
  with 1 built show ?thesis by simp
qed

end
